theory Spec2Isabelle
  imports Main
begin

section \<open>The folder hierarchy generator\<close>

text \<open>
  A shallow embedding of \<^verbatim>\<open>scripts/folder-hierarchy-generator.py\<close>: the recursive
  builder \<^verbatim>\<open>get_folder_hierarchy\<close> and the driver \<^verbatim>\<open>main\<close>.

  The builder reads the file system only through three operations of a
  \<^verbatim>\<open>pathlib.Path\<close>: \<^verbatim>\<open>item.name\<close>, \<^verbatim>\<open>item.is_dir()\<close> and
  \<^verbatim>\<open>path_obj.iterdir()\<close>. A path object is modelled by what these three return.
  The last two can raise; a raised exception is a value \<open>Inl e\<close>, a normal return
  is \<open>Inr v\<close>.
\<close>

subsection \<open>Exceptions, path objects and the produced dictionaries\<close>

text \<open>
  The handlers of the builder tell two classes of exceptions apart:
  \<^verbatim>\<open>PermissionError\<close>, and every other \<^verbatim>\<open>Exception\<close>, of which only
  \<^verbatim>\<open>str(e)\<close> is used.
\<close>

datatype exn = PermissionError | OtherException string

text \<open>
  A path object: its final component, the outcome of \<^verbatim>\<open>is_dir()\<close> and the outcome
  of \<^verbatim>\<open>iterdir()\<close> (the child path objects, in the order of the listing). The type is
  a finite tree, so a symbolic-link cycle has no model here.
\<close>

datatype path_obj =
  Path (name: string) (is_dir: "exn + bool") (iterdir: "exn + path_obj list")

text \<open>
  The values the builder produces: dictionaries with string keys whose values are
  dictionaries again or, in the error dictionary, a message string. A Python
  dictionary keeps its keys unique and in insertion order: it is an association
  list, written by \<open>dict_set\<close>.
\<close>

datatype json = JStr string | JObj "(string \<times> json) list"

text \<open>\<^verbatim>\<open>d[k] = v\<close>: an existing key keeps its place and gets the new value, a new
  key goes to the end.\<close>

fun dict_set :: "'k \<Rightarrow> 'v \<Rightarrow> ('k \<times> 'v) list \<Rightarrow> ('k \<times> 'v) list" where
  "dict_set k v [] = [(k, v)]"
| "dict_set k v ((k', v') # d) =
     (if k' = k then (k', v) # d else (k', v') # dict_set k v d)"

text \<open>\<^verbatim>\<open>s.startswith(p)\<close>\<close>

definition startswith :: "string \<Rightarrow> string \<Rightarrow> bool" where
  "startswith s p = (take (length p) s = p)"

subsection \<open>The builder\<close>

text \<open>
  The condition of the list comprehension (lines 27 to 29):
  \<^verbatim>\<open>not item.name.startswith('.') and item.is_dir() and item.name not in ignore_folders\<close>.
  Python's \<^verbatim>\<open>and\<close> stops at the first false operand, so \<^verbatim>\<open>is_dir()\<close> is not
  called on a hidden entry; when it is called and raises, the condition raises.
\<close>

definition keep_item :: "string list \<Rightarrow> path_obj \<Rightarrow> exn + bool" where
  "keep_item ignore_folders item =
     (if startswith (name item) ''.'' then Inr False
      else case is_dir item of
             Inl e \<Rightarrow> Inl e
           | Inr d \<Rightarrow> Inr (d \<and> name item \<notin> set ignore_folders))"

text \<open>
  The condition applied to the entries of a listing, one after the other: the
  entries that pass, in order; the first exception ends it.
\<close>

fun select_items :: "string list \<Rightarrow> path_obj list \<Rightarrow> exn + path_obj list" where
  "select_items ignore_folders [] = Inr []"
| "select_items ignore_folders (item # rest) =
     (case keep_item ignore_folders item of
        Inl e \<Rightarrow> Inl e
      | Inr keep \<Rightarrow>
          (case select_items ignore_folders rest of
             Inl e \<Rightarrow> Inl e
           | Inr items \<Rightarrow> Inr (if keep then item # items else items)))"

text \<open>
  The whole comprehension of lines 26 to 29,
  \<^verbatim>\<open>[item for item in path_obj.iterdir() if ...]\<close>: the listing itself can raise,
  and then nothing is selected.
\<close>

definition items_of :: "string list \<Rightarrow> path_obj \<Rightarrow> exn + path_obj list" where
  "items_of ignore_folders p =
     (case iterdir p of
        Inl e \<Rightarrow> Inl e
      | Inr entries \<Rightarrow> select_items ignore_folders entries)"

text \<open>
  The two handlers (lines 37 to 40) around the body of the \<^verbatim>\<open>try\<close>: a body that
  returns gives its dictionary, \<^verbatim>\<open>PermissionError\<close> gives the fixed message, any
  other exception gives \<^verbatim>\<open>str(e)\<close>.
\<close>

definition try_except :: "exn + (string \<times> json) list \<Rightarrow> exn + json" where
  "try_except body =
     (case body of
        Inr result \<Rightarrow> Inr (JObj result)
      | Inl PermissionError \<Rightarrow> Inr (JObj [(''error'', JStr ''Permission denied'')])
      | Inl (OtherException msg) \<Rightarrow> Inr (JObj [(''error'', JStr msg)]))"

lemma select_items_subset:
  "select_items ig es = Inr items \<Longrightarrow> set items \<subseteq> set es"
  by (induction es arbitrary: items) (auto split: sum.splits if_splits)

lemma size_iterdir:
  "iterdir p = Inr es \<Longrightarrow> x \<in> set es \<Longrightarrow> size x < size p"
  by (cases p) (auto simp: less_Suc_eq_le dest!: size_list_estimation'[where f = size and y = "size x"])

lemma size_items_of:
  "items_of ig p = Inr items \<Longrightarrow> x \<in> set items \<Longrightarrow> size x < size p"
  by (auto simp: items_of_def split: sum.splits dest!: select_items_subset dest: size_iterdir)

text \<open>
  \<^verbatim>\<open>get_folder_hierarchy(path, ignore_folders=None)\<close>. The result type keeps the
  possibility of a raised exception: the loop of lines 32 to 34 passes on what a
  recursive call raises, inside the \<^verbatim>\<open>try\<close>. The recursion follows the listing,
  so it ends because the tree is finite.
\<close>

function get_folder_hierarchy :: "path_obj \<Rightarrow> string list option \<Rightarrow> exn + json" where
  "get_folder_hierarchy path ignore_folders =
     (let ignore_folders = (case ignore_folders of None \<Rightarrow> [] | Some l \<Rightarrow> l) in
      try_except
        (case items_of ignore_folders path of
           Inl e \<Rightarrow> Inl e
         | Inr items \<Rightarrow>
             fold (\<lambda>item acc.
                     case acc of
                       Inl e \<Rightarrow> Inl e
                     | Inr result \<Rightarrow>
                         (case get_folder_hierarchy item (Some ignore_folders) of
                            Inl e \<Rightarrow> Inl e
                          | Inr sub \<Rightarrow> Inr (dict_set (name item) sub result)))
                  items (Inr [])))"
  by pat_completeness auto
termination
  by (relation "measure (\<lambda>(p, ig). size p)") (auto dest: size_items_of)

declare get_folder_hierarchy.simps [simp del]

subsection \<open>The driver\<close>

text \<open>
  \<^verbatim>\<open>main\<close> reads the parsed arguments (\<^verbatim>\<open>args.path\<close>, \<^verbatim>\<open>args.output\<close>,
  \<^verbatim>\<open>args.ignore\<close>), asks the operating system about the start path, prints, and
  writes one file. What the operating system answers is the environment; what the
  run changes is the state: the lines printed so far and, for each file name, the
  document that \<^verbatim>\<open>json.dump(..., indent=2, ensure_ascii=False)\<close> was given to write
  there.
\<close>

record args =
  args_path :: string
  args_output :: string
  args_ignore :: "string list"

record env =
  os_path_exists :: "string \<Rightarrow> bool"
  os_path_isdir :: "string \<Rightarrow> bool"
  os_path_abspath :: "string \<Rightarrow> string"
  path_at :: "string \<Rightarrow> path_obj"
  open_w :: "string \<Rightarrow> exn option"

record state =
  stdout :: "string list"
  files :: "string \<Rightarrow> json option"

text \<open>\<^verbatim>\<open>os.path.basename\<close> on POSIX: what follows the last slash.\<close>

definition basename :: "string \<Rightarrow> string" where
  "basename p = rev (takeWhile (\<lambda>c. c \<noteq> CHR ''/'') (rev p))"

text \<open>\<^verbatim>\<open>sep.join(xs)\<close>\<close>

fun join :: "string \<Rightarrow> string list \<Rightarrow> string" where
  "join sep [] = []"
| "join sep [x] = x"
| "join sep (x # y # ys) = x @ sep @ join sep (y # ys)"

text \<open>A name between single quotes, as the messages show it.\<close>

definition quoted :: "string \<Rightarrow> string" where
  "quoted s = [CHR 0x27] @ s @ [CHR 0x27]"

definition print_line :: "string \<Rightarrow> state \<Rightarrow> state" where
  "print_line line s = s\<lparr>stdout := stdout s @ [line]\<rparr>"

definition json_dump :: "json \<Rightarrow> string \<Rightarrow> state \<Rightarrow> state" where
  "json_dump doc file s = s\<lparr>files := (files s)(file \<mapsto> doc)\<rparr>"

text \<open>
  \<^verbatim>\<open>main()\<close> after \<^verbatim>\<open>parse_args\<close> (lines 52 to 78). It returns the new state and
  the exception it raised, if any: \<open>None\<close> is a normal return. An exception of
  \<^verbatim>\<open>open(output_file, 'w')\<close> is not handled.
\<close>

definition main :: "env \<Rightarrow> args \<Rightarrow> state \<Rightarrow> state \<times> exn option" where
  "main e a s =
     (let start_path = args_path a;
          output_file = args_output a;
          ignore_folders = args_ignore a
      in
      if \<not> os_path_exists e start_path then
        (print_line (''Error: Path '' @ quoted start_path @ '' does not exist.'') s, None)
      else if \<not> os_path_isdir e start_path then
        (print_line (''Error: Path '' @ quoted start_path @ '' is not a directory.'') s, None)
      else
        let s1 = print_line (''Building folder hierarchy from '' @ quoted start_path @ ''...'') s;
            s2 = (if ignore_folders \<noteq> []
                  then print_line (''Ignoring folders: '' @ join '', '' ignore_folders) s1
                  else s1)
        in
        case get_folder_hierarchy (path_at e start_path) (Some ignore_folders) of
          Inl x \<Rightarrow> (s2, Some x)
        | Inr node \<Rightarrow>
            let folder_hierarchy = JObj [(basename (os_path_abspath e start_path), node)] in
            (case open_w e output_file of
               Some x \<Rightarrow> (s2, Some x)
             | None \<Rightarrow>
                 (print_line (''Folder hierarchy saved to '' @ quoted output_file)
                    (json_dump folder_hierarchy output_file s2),
                  None)))"

subsection \<open>Reading the hierarchy\<close>

text \<open>Every key of a produced value, at every nesting level.\<close>

fun all_keys :: "json \<Rightarrow> string list" where
  "all_keys (JStr s) = []"
| "all_keys (JObj kvs) = concat (map (\<lambda>(k, v). k # all_keys v) kvs)"

text \<open>The keys, at every nesting level, whose value is a dictionary: the keys that
  stand for a directory. The key of an error dictionary has a string value.\<close>

fun dir_keys :: "json \<Rightarrow> string list" where
  "dir_keys (JStr s) = []"
| "dir_keys (JObj kvs) =
     concat (map (\<lambda>(k, v). (case v of JObj _ \<Rightarrow> [k] | JStr _ \<Rightarrow> []) @ dir_keys v) kvs)"

text \<open>The error dictionary of lines 38 and 40: one key \<^verbatim>\<open>"error"\<close> with a message.\<close>

fun is_sentinel :: "json \<Rightarrow> bool" where
  "is_sentinel (JObj [(k, JStr msg)]) = (k = ''error'')"
| "is_sentinel _ = False"

text \<open>The entries a listing gave, none when the listing failed.\<close>

definition children :: "path_obj \<Rightarrow> path_obj list" where
  "children p = (case iterdir p of Inl e \<Rightarrow> [] | Inr es \<Rightarrow> es)"

text \<open>
  \<open>mirrors p h\<close>: the dictionary \<open>h\<close> is an error dictionary, or each of its keys is
  the name of an entry of \<open>p\<close> for which \<^verbatim>\<open>is_dir()\<close> returned true, and the value
  under the key mirrors that entry in turn.
\<close>

fun mirrors :: "path_obj \<Rightarrow> json \<Rightarrow> bool" where
  "mirrors p (JStr s) = False"
| "mirrors p (JObj kvs) =
     (is_sentinel (JObj kvs) \<or>
      (\<forall>(k, v) \<in> set kvs. \<exists>item \<in> set (children p).
          name item = k \<and> is_dir item = Inr True \<and> mirrors item v))"

subsection \<open>Two directory trees and one environment\<close>

text \<open>
  The tree of the concrete scenario: \<^verbatim>\<open>project\<close> holds \<^verbatim>\<open>src\<close> (with \<^verbatim>\<open>utils\<close>
  and the hidden \<^verbatim>\<open>.cache\<close>), \<^verbatim>\<open>node_modules\<close> and the file \<^verbatim>\<open>README.md\<close>.
  Listing a file raises \<^verbatim>\<open>NotADirectoryError\<close>.
\<close>

definition project :: path_obj where
  "project =
     Path ''project'' (Inr True) (Inr
       [Path ''src'' (Inr True) (Inr
          [Path ''utils'' (Inr True) (Inr []),
           Path ''.cache'' (Inr True) (Inr [Path ''tmp'' (Inr True) (Inr [])])]),
        Path ''node_modules'' (Inr True) (Inr [Path ''lodash'' (Inr True) (Inr [])]),
        Path ''README.md'' (Inr False) (Inl (OtherException ''[Errno 20] Not a directory''))])"

text \<open>
  A tree with a directory that cannot be listed for lack of permission, a readable
  sibling, a directory whose listing fails for another reason, and a file.
\<close>

definition locked :: path_obj where
  "locked = Path ''locked'' (Inr True) (Inl PermissionError)"

definition broken :: path_obj where
  "broken = Path ''broken'' (Inr True) (Inl (OtherException ''[Errno 5] Input/output error''))"

definition home :: path_obj where
  "home =
     Path ''home'' (Inr True) (Inr
       [locked,
        Path ''music'' (Inr True) (Inr [Path ''albums'' (Inr True) (Inr [])]),
        broken,
        Path ''notes.txt'' (Inr False) (Inl (OtherException ''[Errno 20] Not a directory''))])"

text \<open>
  An environment whose working directory is \<^verbatim>\<open>/home/user\<close>, holding the directory
  \<^verbatim>\<open>project\<close> and the file \<^verbatim>\<open>notes.txt\<close>; every file can be opened for writing.
\<close>

definition scenario_env :: env where
  "scenario_env =
     \<lparr>os_path_exists = (\<lambda>p. p = ''project'' \<or> p = ''notes.txt''),
      os_path_isdir = (\<lambda>p. p = ''project''),
      os_path_abspath = (\<lambda>p. ''/home/user/'' @ p),
      path_at = (\<lambda>p.
        if p = ''project'' then project
        else if p = ''notes.txt''
        then Path ''notes.txt'' (Inr False) (Inl (OtherException ''[Errno 20] Not a directory''))
        else Path (basename p) (Inr False) (Inl (OtherException ''[Errno 2] No such file or directory''))),
      open_w = (\<lambda>f. None)\<rparr>"

definition scenario_args :: "string \<Rightarrow> args" where
  "scenario_args p =
     \<lparr>args_path = p, args_output = ''folder_hierarchy.json'', args_ignore = [''node_modules'']\<rparr>"

definition initial_state :: state where
  "initial_state = \<lparr>stdout = [], files = Map.empty\<rparr>"

section \<open>Properties\<close>

subsection \<open>Facts about the building blocks\<close>

lemma try_except_returns: "\<exists>kvs. try_except body = Inr (JObj kvs)"
  by (auto simp: try_except_def split: sum.splits exn.splits)

lemma get_folder_hierarchy_returns:
  "\<exists>kvs. get_folder_hierarchy path ignore_folders = Inr (JObj kvs)"
  by (subst get_folder_hierarchy.simps) (simp add: Let_def try_except_returns)

lemma get_folder_hierarchy_Inr:
  "get_folder_hierarchy p ig = Inr (projr (get_folder_hierarchy p ig))"
  using get_folder_hierarchy_returns [of p ig] by auto

text \<open>The loop of lines 32 to 34: once an exception is under way it stays, and when
  every call returns the loop is a plain fold of \<open>dict_set\<close>.\<close>

lemma loop_returns:
  "(\<And>item. item \<in> set items \<Longrightarrow> f item = Inr (g item)) \<Longrightarrow>
   fold (\<lambda>item acc. case acc of Inl e \<Rightarrow> Inl e
                     | Inr result \<Rightarrow> (case f item of Inl e \<Rightarrow> Inl e
                                      | Inr sub \<Rightarrow> Inr (dict_set (name item) sub result)))
        items (Inr r) =
   Inr (fold (\<lambda>item. dict_set (name item) (g item)) items r)"
  by (induction items arbitrary: r) auto

lemma get_folder_hierarchy_listed:
  assumes "items_of (case ig of None \<Rightarrow> [] | Some l \<Rightarrow> l) p = Inr items"
  shows "get_folder_hierarchy p ig =
         Inr (JObj (fold (\<lambda>item. dict_set (name item)
                        (projr (get_folder_hierarchy item (Some (case ig of None \<Rightarrow> [] | Some l \<Rightarrow> l)))))
                      items []))"
  apply (subst get_folder_hierarchy.simps)
  apply (simp add: Let_def assms try_except_def)
  apply (subst loop_returns [where g = "\<lambda>item. projr (get_folder_hierarchy item (Some (case ig of None \<Rightarrow> [] | Some l \<Rightarrow> l)))"])
   apply (rule get_folder_hierarchy_Inr)
  apply simp
  done

lemma get_folder_hierarchy_unlisted:
  assumes "items_of (case ig of None \<Rightarrow> [] | Some l \<Rightarrow> l) p = Inl x"
  shows "get_folder_hierarchy p ig = try_except (Inl x)"
  by (subst get_folder_hierarchy.simps) (simp add: Let_def assms)

lemma set_dict_set: "set (dict_set k v d) \<subseteq> insert (k, v) (set d)"
  by (induction d) (auto split: if_splits)

lemma set_fold_dict_set:
  "set (fold (\<lambda>item. dict_set (name item) (g item)) items r)
     \<subseteq> set r \<union> (\<lambda>item. (name item, g item)) ` set items"
proof (induction items arbitrary: r)
  case Nil
  show ?case by simp
next
  case (Cons item items)
  have "set (fold (\<lambda>item. dict_set (name item) (g item)) items (dict_set (name item) (g item) r))
          \<subseteq> set (dict_set (name item) (g item) r) \<union> (\<lambda>item. (name item, g item)) ` set items"
    by (rule Cons.IH)
  with set_dict_set [of "name item" "g item" r] show ?case by auto
qed

lemma dict_set_fresh: "k \<notin> fst ` set d \<Longrightarrow> dict_set k v d = d @ [(k, v)]"
  by (induction d) auto

lemma fold_dict_set_distinct:
  "distinct (map name items) \<Longrightarrow> name ` set items \<inter> fst ` set r = {} \<Longrightarrow>
   fold (\<lambda>item. dict_set (name item) (g item)) items r = r @ map (\<lambda>item. (name item, g item)) items"
proof (induction items arbitrary: r)
  case Nil
  show ?case by simp
next
  case (Cons item items)
  have fresh: "name item \<notin> fst ` set r" using Cons.prems(2) by auto
  have "name ` set items \<inter> fst ` set (r @ [(name item, g item)]) = {}"
    using Cons.prems by auto
  with Cons.IH [of "r @ [(name item, g item)]"] Cons.prems(1) fresh
  show ?case by (simp add: dict_set_fresh)
qed

lemma select_items_kept:
  "select_items ig es = Inr items \<Longrightarrow> item \<in> set items \<Longrightarrow>
   item \<in> set es \<and> \<not> startswith (name item) ''.'' \<and> is_dir item = Inr True \<and> name item \<notin> set ig"
  by (induction es arbitrary: items)
     (auto simp: keep_item_def split: sum.splits if_splits)

lemma items_of_kept:
  "items_of ig p = Inr items \<Longrightarrow> item \<in> set items \<Longrightarrow>
   item \<in> set (children p) \<and> \<not> startswith (name item) ''.'' \<and> is_dir item = Inr True \<and>
   name item \<notin> set ig"
  by (auto simp: items_of_def children_def split: sum.splits dest: select_items_kept)

lemma sentinel_cases:
  "try_except (Inl x) = Inr h \<Longrightarrow> \<exists>msg. h = JObj [(''error'', JStr msg)]"
  by (auto simp: try_except_def split: exn.splits)

text \<open>What a call returns: the error dictionary, or one entry for selected items
  only, each holding what the call on that item returned.\<close>

lemma get_folder_hierarchy_cases [consumes 1, case_names sentinel listed]:
  assumes "get_folder_hierarchy p ig = Inr h"
  obtains (sentinel) msg where "h = JObj [(''error'', JStr msg)]"
    | (listed) items kvs
      where "items_of (case ig of None \<Rightarrow> [] | Some l \<Rightarrow> l) p = Inr items"
        and "h = JObj kvs"
        and "\<And>k v. (k, v) \<in> set kvs \<Longrightarrow>
               \<exists>item \<in> set items. k = name item \<and>
                 get_folder_hierarchy item (Some (case ig of None \<Rightarrow> [] | Some l \<Rightarrow> l)) = Inr v"
proof (cases "items_of (case ig of None \<Rightarrow> [] | Some l \<Rightarrow> l) p")
  case (Inl x)
  from assms get_folder_hierarchy_unlisted [OF Inl]
  have "try_except (Inl x) = Inr h" by simp
  from sentinel_cases [OF this] sentinel show ?thesis by blast
next
  case sel: (Inr items)
  let ?g = "\<lambda>item. projr (get_folder_hierarchy item (Some (case ig of None \<Rightarrow> [] | Some l \<Rightarrow> l)))"
  let ?kvs = "fold (\<lambda>item. dict_set (name item) (?g item)) items []"
  have h: "h = JObj ?kvs"
    using assms get_folder_hierarchy_listed [OF sel] by simp
  have "\<exists>item \<in> set items. k = name item \<and>
          get_folder_hierarchy item (Some (case ig of None \<Rightarrow> [] | Some l \<Rightarrow> l)) = Inr v"
    if "(k, v) \<in> set ?kvs" for k v
  proof -
    from that set_fold_dict_set [of ?g items "[]"]
    obtain item where "item \<in> set items" "k = name item" "v = ?g item"
      by auto
    with get_folder_hierarchy_Inr [of item "Some (case ig of None \<Rightarrow> [] | Some l \<Rightarrow> l)"]
    show ?thesis by auto
  qed
  with sel h listed show ?thesis by blast
qed

lemma all_keys_JObj:
  "k \<in> set (all_keys (JObj kvs)) \<Longrightarrow>
   \<exists>k' v. (k', v) \<in> set kvs \<and> (k = k' \<or> k \<in> set (all_keys v))"
  by (induction kvs) auto

lemma dir_keys_JObj:
  "k \<in> set (dir_keys (JObj kvs)) \<Longrightarrow>
   \<exists>k' v. (k', v) \<in> set kvs \<and> (k = k' \<or> k \<in> set (dir_keys v))"
  by (induction kvs) (auto split: json.splits)

text \<open>Where a key comes from: it is the key of an error dictionary, or the name of
  a selected item, which is neither hidden nor ignored.\<close>

lemma all_keys_origin:
  "get_folder_hierarchy root ig = Inr h \<Longrightarrow> k \<in> set (all_keys h) \<Longrightarrow>
   k = ''error'' \<or>
   (\<not> startswith k ''.'' \<and> k \<notin> set (case ig of None \<Rightarrow> [] | Some l \<Rightarrow> l))"
proof (induction root ig arbitrary: h k rule: get_folder_hierarchy.induct)
  case (1 path ignore_folders)
  let ?ig = "case ignore_folders of None \<Rightarrow> [] | Some l \<Rightarrow> l"
  from "1.prems"(1) show ?case
  proof (cases rule: get_folder_hierarchy_cases)
    case (sentinel msg)
    with "1.prems"(2) show ?thesis by simp
  next
    case (listed items kvs)
    from "1.prems"(2) listed(2) have "k \<in> set (all_keys (JObj kvs))" by simp
    from all_keys_JObj [OF this] obtain k' v where kv: "(k', v) \<in> set kvs"
      and k: "k = k' \<or> k \<in> set (all_keys v)"
      by blast
    from listed(3) [OF kv] obtain item where item: "item \<in> set items" "k' = name item"
      and sub: "get_folder_hierarchy item (Some ?ig) = Inr v"
      by blast
    from k show ?thesis
    proof
      assume "k = k'"
      with items_of_kept [OF listed(1) item(1)] item(2) show ?thesis by simp
    next
      assume "k \<in> set (all_keys v)"
      from "1.IH" [OF refl listed(1) item(1) sub this] show ?thesis by simp
    qed
  qed
qed

lemma dir_keys_origin:
  "get_folder_hierarchy root ig = Inr h \<Longrightarrow> k \<in> set (dir_keys h) \<Longrightarrow>
   k \<notin> set (case ig of None \<Rightarrow> [] | Some l \<Rightarrow> l)"
proof (induction root ig arbitrary: h k rule: get_folder_hierarchy.induct)
  case (1 path ignore_folders)
  let ?ig = "case ignore_folders of None \<Rightarrow> [] | Some l \<Rightarrow> l"
  from "1.prems"(1) show ?case
  proof (cases rule: get_folder_hierarchy_cases)
    case (sentinel msg)
    with "1.prems"(2) show ?thesis by simp
  next
    case (listed items kvs)
    from "1.prems"(2) listed(2) have "k \<in> set (dir_keys (JObj kvs))" by simp
    from dir_keys_JObj [OF this] obtain k' v where kv: "(k', v) \<in> set kvs"
      and k: "k = k' \<or> k \<in> set (dir_keys v)"
      by blast
    from listed(3) [OF kv] obtain item where item: "item \<in> set items" "k' = name item"
      and sub: "get_folder_hierarchy item (Some ?ig) = Inr v"
      by blast
    from k show ?thesis
    proof
      assume "k = k'"
      with items_of_kept [OF listed(1) item(1)] item(2) show ?thesis by simp
    next
      assume "k \<in> set (dir_keys v)"
      from "1.IH" [OF refl listed(1) item(1) sub this] show ?thesis by simp
    qed
  qed
qed

text \<open>The builder on the two trees.\<close>

lemmas eval_simps =
  get_folder_hierarchy.simps items_of_def try_except_def keep_item_def startswith_def

lemma project_hierarchy:
  "get_folder_hierarchy project (Some [''node_modules'']) =
   Inr (JObj [(''src'', JObj [(''utils'', JObj [])])])"
  by (simp add: project_def eval_simps)

lemma home_hierarchy:
  "get_folder_hierarchy home (Some [''error'']) =
   Inr (JObj [(''locked'', JObj [(''error'', JStr ''Permission denied'')]),
              (''music'', JObj [(''albums'', JObj [])]),
              (''broken'', JObj [(''error'', JStr ''[Errno 5] Input/output error'')])])"
  by (simp add: home_def locked_def broken_def eval_simps)

subsection \<open>The concrete scenario\<close>

text \<open>
  Claim C1. On the tree \<open>project\<close> with the ignore list \<^verbatim>\<open>["node_modules"]\<close> the
  builder returns \<^verbatim>\<open>{"src": {"utils": {}}}\<close>, and the driver, started on the path
  \<^verbatim>\<open>project\<close>, returns normally having written exactly the document
  \<^verbatim>\<open>{"project": {"src": {"utils": {}}}}\<close> to its output file: the hidden
  \<^verbatim>\<open>.cache\<close>, the ignored \<^verbatim>\<open>node_modules\<close> and the file \<^verbatim>\<open>README.md\<close> are left out.
\<close>

theorem scenario_document:
  "get_folder_hierarchy project (Some [''node_modules'']) =
     Inr (JObj [(''src'', JObj [(''utils'', JObj [])])]) \<and>
   files (fst (main scenario_env (scenario_args ''project'') initial_state)) ''folder_hierarchy.json'' =
     Some (JObj [(''project'', JObj [(''src'', JObj [(''utils'', JObj [])])])]) \<and>
   snd (main scenario_env (scenario_args ''project'') initial_state) = None"
  by (simp add: project_hierarchy main_def scenario_env_def scenario_args_def initial_state_def
        print_line_def json_dump_def basename_def Let_def)

subsection \<open>Listing failures\<close>

text \<open>
  Claim C2. When the comprehension over the listing of a directory raises
  \<^verbatim>\<open>PermissionError\<close>, the builder returns for that directory exactly the
  dictionary \<^verbatim>\<open>{"error": "Permission denied"}\<close>: one key, no child of the directory
  under it, no recursive call. Any other exception \<open>e\<close> gives
  \<^verbatim>\<open>{"error": str(e)}\<close> in the same way. The rest of the tree is built as if nothing
  had failed: a directory whose own comprehension returns items of distinct names
  gets one key for each item, in the order of the listing, and the value under the
  key is what the builder returns for that item alone, be it an error dictionary or
  a hierarchy. So a failure changes the value under the key of the failing
  directory and nothing else, at every level above it.
\<close>

theorem listing_failure_is_local:
  "(items_of ig p = Inl PermissionError \<longrightarrow>
      get_folder_hierarchy p (Some ig) = Inr (JObj [(''error'', JStr ''Permission denied'')])) \<and>
   (items_of ig p = Inl (OtherException msg) \<longrightarrow>
      get_folder_hierarchy p (Some ig) = Inr (JObj [(''error'', JStr msg)])) \<and>
   (items_of ig parent = Inr items \<and> distinct (map name items) \<longrightarrow>
      (\<exists>kvs. get_folder_hierarchy parent (Some ig) = Inr (JObj kvs) \<and>
             map fst kvs = map name items \<and>
             map (\<lambda>item. get_folder_hierarchy item (Some ig)) items =
               map (\<lambda>kv. Inr (snd kv)) kvs))"
proof (intro conjI impI)
  assume "items_of ig p = Inl PermissionError"
  then have "get_folder_hierarchy p (Some ig) = try_except (Inl PermissionError)"
    by (intro get_folder_hierarchy_unlisted) simp
  then show "get_folder_hierarchy p (Some ig) = Inr (JObj [(''error'', JStr ''Permission denied'')])"
    by (simp add: try_except_def)
next
  assume "items_of ig p = Inl (OtherException msg)"
  then have "get_folder_hierarchy p (Some ig) = try_except (Inl (OtherException msg))"
    by (intro get_folder_hierarchy_unlisted) simp
  then show "get_folder_hierarchy p (Some ig) = Inr (JObj [(''error'', JStr msg)])"
    by (simp add: try_except_def)
next
  let ?g = "\<lambda>item. projr (get_folder_hierarchy item (Some ig))"
  let ?kvs = "map (\<lambda>item. (name item, ?g item)) items"
  assume a: "items_of ig parent = Inr items \<and> distinct (map name items)"
  then have "items_of (case Some ig of None \<Rightarrow> [] | Some l \<Rightarrow> l) parent = Inr items"
    by simp
  from get_folder_hierarchy_listed [OF this]
  have "get_folder_hierarchy parent (Some ig) =
          Inr (JObj (fold (\<lambda>item. dict_set (name item) (?g item)) items []))"
    by simp
  moreover have "fold (\<lambda>item. dict_set (name item) (?g item)) items [] = [] @ ?kvs"
    using a by (intro fold_dict_set_distinct) simp_all
  ultimately have 1: "get_folder_hierarchy parent (Some ig) = Inr (JObj ?kvs)" by simp
  have 2: "map fst ?kvs = map name items" by (simp add: comp_def)
  have 3: "map (\<lambda>item. get_folder_hierarchy item (Some ig)) items = map (\<lambda>kv. Inr (snd kv)) ?kvs"
    using get_folder_hierarchy_Inr by (simp add: comp_def)
  from 1 2 3 show "\<exists>kvs. get_folder_hierarchy parent (Some ig) = Inr (JObj kvs) \<and>
             map fst kvs = map name items \<and>
             map (\<lambda>item. get_folder_hierarchy item (Some ig)) items = map (\<lambda>kv. Inr (snd kv)) kvs"
    by blast
qed

text \<open>
  On the tree \<open>home\<close>: \<open>locked\<close> and \<open>broken\<close> get their error dictionaries, and
  \<open>home\<close> still gets its three keys, each with the result of its own directory.
\<close>

theorem listing_failure_is_local_witness:
  "items_of [] locked = Inl PermissionError \<and>
   get_folder_hierarchy locked (Some []) = Inr (JObj [(''error'', JStr ''Permission denied'')]) \<and>
   items_of [] broken = Inl (OtherException ''[Errno 5] Input/output error'') \<and>
   get_folder_hierarchy broken (Some []) =
     Inr (JObj [(''error'', JStr ''[Errno 5] Input/output error'')]) \<and>
   items_of [] home = Inr (take 3 (children home)) \<and>
   distinct (map name (take 3 (children home))) \<and>
   (\<exists>kvs. get_folder_hierarchy home (Some []) = Inr (JObj kvs) \<and>
          map fst kvs = [''locked'', ''music'', ''broken''] \<and>
          map (\<lambda>item. get_folder_hierarchy item (Some [])) (take 3 (children home)) =
            map (\<lambda>kv. Inr (snd kv)) kvs)"
proof -
  have 1: "items_of [] locked = Inl PermissionError"
    by (simp add: locked_def items_of_def)
  have 2: "items_of [] broken = Inl (OtherException ''[Errno 5] Input/output error'')"
    by (simp add: broken_def items_of_def)
  have 3: "items_of [] home = Inr (take 3 (children home))"
    by (simp add: home_def children_def locked_def broken_def items_of_def keep_item_def
          startswith_def)
  have 4: "distinct (map name (take 3 (children home)))"
    by (simp add: home_def children_def locked_def broken_def)
  have 5: "map name (take 3 (children home)) = [''locked'', ''music'', ''broken'']"
    by (simp add: home_def children_def locked_def broken_def)
  from listing_failure_is_local [where p = locked and ig = "[]", THEN conjunct1] 1
  have a: "get_folder_hierarchy locked (Some []) =
             Inr (JObj [(''error'', JStr ''Permission denied'')])"
    by simp
  from listing_failure_is_local [where p = broken and ig = "[]"
      and msg = "''[Errno 5] Input/output error''", THEN conjunct2, THEN conjunct1] 2
  have b: "get_folder_hierarchy broken (Some []) =
             Inr (JObj [(''error'', JStr ''[Errno 5] Input/output error'')])"
    by simp
  from listing_failure_is_local [where ig = "[]" and parent = home
      and items = "take 3 (children home)", THEN conjunct2, THEN conjunct2] 3 4 5
  have c: "\<exists>kvs. get_folder_hierarchy home (Some []) = Inr (JObj kvs) \<and>
          map fst kvs = [''locked'', ''music'', ''broken''] \<and>
          map (\<lambda>item. get_folder_hierarchy item (Some [])) (take 3 (children home)) =
            map (\<lambda>kv. Inr (snd kv)) kvs"
    by simp
  from 1 2 3 4 a b c show ?thesis by blast
qed

text \<open>
  Claim C3. Whatever the path object and the ignore argument, the builder returns a
  dictionary and raises nothing: every exception of the listing, of
  \<^verbatim>\<open>is_dir()\<close> and of a recursive call is raised inside the \<^verbatim>\<open>try\<close>, and the two
  handlers turn each one into a returned dictionary. (Exceptions outside the class
  \<^verbatim>\<open>Exception\<close>, such as a keyboard interrupt, are not values of \<open>exn\<close>.)
\<close>

theorem builder_always_returns_mapping:
  "\<exists>kvs. get_folder_hierarchy root ignore_folders = Inr (JObj kvs)"
  by (rule get_folder_hierarchy_returns)

subsection \<open>What the keys are\<close>

text \<open>
  Claim C4. No key of the produced hierarchy, at any nesting level, starts with a
  dot, whatever the ignore argument is. So an entry whose name starts with a dot is
  never a key.
\<close>

theorem hidden_names_never_keys:
  "get_folder_hierarchy root ignore_folders = Inr h \<Longrightarrow> k \<in> set (all_keys h) \<Longrightarrow>
   \<not> startswith k ''.''"
  using all_keys_origin [of root ignore_folders h k] by (auto simp: startswith_def)

theorem hidden_names_never_keys_witness:
  "get_folder_hierarchy project (Some [''node_modules'']) =
     Inr (JObj [(''src'', JObj [(''utils'', JObj [])])]) \<and>
   ''utils'' \<in> set (all_keys (JObj [(''src'', JObj [(''utils'', JObj [])])])) \<and>
   \<not> startswith ''utils'' ''.''"
  using hidden_names_never_keys [OF project_hierarchy, of "''utils''"] project_hierarchy
  by simp

text \<open>
  Claim C5, as stated, fails. The key \<^verbatim>\<open>"error"\<close> of an error dictionary is written
  by the handlers, not selected from the listing, so the ignore list does not apply
  to it: with the ignore list \<^verbatim>\<open>["error"]\<close> the hierarchy of \<open>home\<close> has the key
  \<^verbatim>\<open>"error"\<close> under \<^verbatim>\<open>locked\<close> and under \<^verbatim>\<open>broken\<close>.
\<close>

theorem ignored_names_key_counterexample:
  "''error'' \<in> set [''error''] \<and>
   get_folder_hierarchy home (Some [''error'']) =
     Inr (JObj [(''locked'', JObj [(''error'', JStr ''Permission denied'')]),
                (''music'', JObj [(''albums'', JObj [])]),
                (''broken'', JObj [(''error'', JStr ''[Errno 5] Input/output error'')])]) \<and>
   ''error'' \<in> set (all_keys
     (JObj [(''locked'', JObj [(''error'', JStr ''Permission denied'')]),
            (''music'', JObj [(''albums'', JObj [])]),
            (''broken'', JObj [(''error'', JStr ''[Errno 5] Input/output error'')])]))"
  using home_hierarchy by simp

text \<open>
  Claim C5, amended. For every name in the ignore list, no key that stands for a
  directory (a key whose value is a dictionary) has that name, at any nesting
  level; and no key at all has that name, unless the name is \<^verbatim>\<open>"error"\<close>. The test
  is on the name alone, the same list at every level.
\<close>

theorem ignored_names_never_directory_keys:
  "n \<in> set ignore_folders \<Longrightarrow> get_folder_hierarchy root (Some ignore_folders) = Inr h \<Longrightarrow>
   n \<notin> set (dir_keys h) \<and> (n \<noteq> ''error'' \<longrightarrow> n \<notin> set (all_keys h))"
  using dir_keys_origin [of root "Some ignore_folders" h n]
    all_keys_origin [of root "Some ignore_folders" h n]
  by auto

text \<open>
  On \<open>project\<close> the ignored \<^verbatim>\<open>node_modules\<close> is no key at all; on \<open>home\<close>, with
  \<^verbatim>\<open>"error"\<close> ignored, the only keys \<^verbatim>\<open>"error"\<close> are those of the error dictionaries.
\<close>

theorem ignored_names_never_directory_keys_witness:
  "''node_modules'' \<in> set [''node_modules''] \<and>
   get_folder_hierarchy project (Some [''node_modules'']) =
     Inr (JObj [(''src'', JObj [(''utils'', JObj [])])]) \<and>
   ''node_modules'' \<notin> set (dir_keys (JObj [(''src'', JObj [(''utils'', JObj [])])])) \<and>
   ''node_modules'' \<notin> set (all_keys (JObj [(''src'', JObj [(''utils'', JObj [])])])) \<and>
   ''error'' \<in> set [''error''] \<and>
   get_folder_hierarchy home (Some [''error'']) =
     Inr (JObj [(''locked'', JObj [(''error'', JStr ''Permission denied'')]),
                (''music'', JObj [(''albums'', JObj [])]),
                (''broken'', JObj [(''error'', JStr ''[Errno 5] Input/output error'')])]) \<and>
   ''error'' \<notin> set (dir_keys
     (JObj [(''locked'', JObj [(''error'', JStr ''Permission denied'')]),
            (''music'', JObj [(''albums'', JObj [])]),
            (''broken'', JObj [(''error'', JStr ''[Errno 5] Input/output error'')])]))"
  using ignored_names_never_directory_keys [OF _ project_hierarchy, of "''node_modules''"]
    ignored_names_never_directory_keys [OF _ home_hierarchy, of "''error''"]
    project_hierarchy home_hierarchy
  by simp

text \<open>
  Claim C6. An entry that is not a directory is never a key: at every nesting level
  a returned dictionary is either an error dictionary, or each of its keys is the
  name of an entry of the listed directory for which \<^verbatim>\<open>is_dir()\<close> returned true, with
  the value under the key built from that entry in the same way.
\<close>

theorem hierarchy_mirrors_directories:
  "get_folder_hierarchy root ignore_folders = Inr h \<Longrightarrow> mirrors root h"
proof (induction root ignore_folders arbitrary: h rule: get_folder_hierarchy.induct)
  case (1 path ignore_folders)
  let ?ig = "case ignore_folders of None \<Rightarrow> [] | Some l \<Rightarrow> l"
  from "1.prems" show ?case
  proof (cases rule: get_folder_hierarchy_cases)
    case (sentinel msg)
    then show ?thesis by simp
  next
    case (listed items kvs)
    have "\<exists>item \<in> set (children path). name item = k \<and> is_dir item = Inr True \<and> mirrors item v"
      if kv: "(k, v) \<in> set kvs" for k v
    proof -
      from listed(3) [OF kv] obtain item where item: "item \<in> set items" "k = name item"
        and sub: "get_folder_hierarchy item (Some ?ig) = Inr v"
        by blast
      from items_of_kept [OF listed(1) item(1)]
      have "item \<in> set (children path)" "is_dir item = Inr True"
        by simp_all
      moreover from "1.IH" [OF refl listed(1) item(1) sub] have "mirrors item v" .
      ultimately show ?thesis using item(2) by blast
    qed
    then have "\<forall>(k, v) \<in> set kvs. \<exists>item \<in> set (children path).
                 name item = k \<and> is_dir item = Inr True \<and> mirrors item v"
      by blast
    with listed(2) show ?thesis by simp
  qed
qed

theorem hierarchy_mirrors_directories_witness:
  "get_folder_hierarchy project (Some [''node_modules'']) =
     Inr (JObj [(''src'', JObj [(''utils'', JObj [])])]) \<and>
   mirrors project (JObj [(''src'', JObj [(''utils'', JObj [])])])"
  using hierarchy_mirrors_directories [OF project_hierarchy] project_hierarchy
  by simp

subsection \<open>The driver\<close>

text \<open>
  Claim C7. When the start path does not exist, or exists and is not a directory,
  the driver prints one line, the message for that case, returns normally and
  leaves every file as it was. The existence test comes first: a path that does not
  exist gets the message \<^verbatim>\<open>does not exist\<close>, whatever the directory test would say.
\<close>

theorem invalid_root_reported:
  assumes "\<not> os_path_exists e (args_path a) \<or> \<not> os_path_isdir e (args_path a)"
  shows "main e a s =
           (print_line (''Error: Path '' @ quoted (args_path a) @
                          (if \<not> os_path_exists e (args_path a) then '' does not exist.''
                           else '' is not a directory.'')) s,
            None) \<and>
         files (fst (main e a s)) = files s"
  using assms by (auto simp: main_def Let_def print_line_def)

theorem invalid_root_reported_witness:
  "\<not> os_path_exists scenario_env ''missing'' \<and>
   stdout (fst (main scenario_env (scenario_args ''missing'') initial_state)) =
     [''Error: Path '' @ quoted ''missing'' @ '' does not exist.''] \<and>
   snd (main scenario_env (scenario_args ''missing'') initial_state) = None \<and>
   files (fst (main scenario_env (scenario_args ''missing'') initial_state)) = Map.empty \<and>
   os_path_exists scenario_env ''notes.txt'' \<and>
   \<not> os_path_isdir scenario_env ''notes.txt'' \<and>
   stdout (fst (main scenario_env (scenario_args ''notes.txt'') initial_state)) =
     [''Error: Path '' @ quoted ''notes.txt'' @ '' is not a directory.''] \<and>
   snd (main scenario_env (scenario_args ''notes.txt'') initial_state) = None \<and>
   files (fst (main scenario_env (scenario_args ''notes.txt'') initial_state)) = Map.empty"
  using invalid_root_reported [of scenario_env "scenario_args ''missing''" initial_state]
    invalid_root_reported [of scenario_env "scenario_args ''notes.txt''" initial_state]
  by (simp add: scenario_env_def scenario_args_def initial_state_def print_line_def)

text \<open>
  Claim C8. A run on an existing directory that returns normally has written, to
  its output file, a dictionary with exactly one key, the base name of the absolute
  start path, and under it the value the builder returned for the start path and
  the ignore list.
\<close>

theorem written_document_has_root_key:
  assumes "os_path_exists e (args_path a)" and "os_path_isdir e (args_path a)"
    and "snd (main e a s) = None"
  shows "\<exists>node. get_folder_hierarchy (path_at e (args_path a)) (Some (args_ignore a)) = Inr node \<and>
           files (fst (main e a s)) (args_output a) =
             Some (JObj [(basename (os_path_abspath e (args_path a)), node)])"
  using assms
  by (auto simp: main_def Let_def print_line_def json_dump_def split: sum.splits option.splits)

theorem written_document_has_root_key_witness:
  "os_path_exists scenario_env ''project'' \<and>
   os_path_isdir scenario_env ''project'' \<and>
   snd (main scenario_env (scenario_args ''project'') initial_state) = None \<and>
   get_folder_hierarchy project (Some [''node_modules'']) =
     Inr (JObj [(''src'', JObj [(''utils'', JObj [])])]) \<and>
   basename ''/home/user/project'' = ''project'' \<and>
   files (fst (main scenario_env (scenario_args ''project'') initial_state)) ''folder_hierarchy.json'' =
     Some (JObj [(''project'', JObj [(''src'', JObj [(''utils'', JObj [])])])])"
proof -
  have 1: "os_path_exists scenario_env (args_path (scenario_args ''project''))"
    and 2: "os_path_isdir scenario_env (args_path (scenario_args ''project''))"
    by (simp_all add: scenario_env_def scenario_args_def)
  have 3: "snd (main scenario_env (scenario_args ''project'') initial_state) = None"
    by (simp add: project_hierarchy main_def scenario_env_def scenario_args_def Let_def)
  have 4: "basename ''/home/user/project'' = ''project''"
    by (simp add: basename_def)
  from written_document_has_root_key [OF 1 2 3] project_hierarchy 4
  have "files (fst (main scenario_env (scenario_args ''project'') initial_state)) ''folder_hierarchy.json'' =
     Some (JObj [(''project'', JObj [(''src'', JObj [(''utils'', JObj [])])])])"
    by (simp add: scenario_env_def scenario_args_def)
  with 1 2 3 4 project_hierarchy show ?thesis
    by (simp add: scenario_args_def)
qed

subsection \<open>The default of the ignore argument\<close>

text \<open>
  Claim C10. Leaving the ignore argument out (\<^verbatim>\<open>None\<close>) gives the same result as
  passing the empty list, for every path.
\<close>

theorem omitted_ignore_is_empty_list:
  "get_folder_hierarchy path None = get_folder_hierarchy path (Some [])"
  by (simp add: get_folder_hierarchy.simps [of path None]
        get_folder_hierarchy.simps [of path "Some []"])

end
